theory Spec2Isabelle
  imports Main "HOL-Library.Sublist"
begin

section \<open>Python values shared by the test harness\<close>

text \<open>
  An exception object carries its class, its message and its \<^verbatim>\<open>__context__\<close>: the
  exception that was being handled when this one was raised, or \<^verbatim>\<open>None\<close>.
\<close>

datatype exc_class =
  AttributeError | TypeError | ValueError | KeyError | RuntimeError
  | SystemExit | UsageError | ConnectionError

datatype exn = Exn (exn_class: exc_class) (exn_msg: string) (exn_context: "exn option")

type_synonym traceback = "string list"

text \<open>
  The statement \<^verbatim>\<open>raise x\<close>: when \<^verbatim>\<open>x\<close> is \<^verbatim>\<open>None\<close> the interpreter raises a
  \<^verbatim>\<open>TypeError\<close> instead, since \<^verbatim>\<open>None\<close> is no exception.
\<close>

definition py_raise :: "exn option \<Rightarrow> exn" where
  "py_raise x =
     (case x of
        None \<Rightarrow> Exn TypeError ''exceptions must derive from BaseException'' None
      | Some e \<Rightarrow> e)"

section \<open>The CLI test runner (\<^verbatim>\<open>testing.CliRunner\<close>)\<close>

text \<open>
  The result of \<^verbatim>\<open>click.testing.CliRunner.invoke\<close>: the exit code, the captured
  \<^verbatim>\<open>sys.exc_info()\<close> triple (or \<^verbatim>\<open>None\<close>) and the output.
\<close>

record result =
  exit_code :: int
  exc_info :: "(exc_class \<times> exn \<times> traceback) option"
  cli_output :: string

text \<open>
  The process-wide state the runner touches: the level of the package logger. Whatever
  else an invoked command may change lives in the extension of the record.
\<close>

record logging =
  log_level :: int

text \<open>
  The runner object. \<^verbatim>\<open>last_result\<close> is an instance attribute that no constructor
  assigns: \<open>None\<close> stands for the attribute being absent from the instance.
\<close>

record CliRunner =
  env :: "(string \<times> string) list"
  last_result :: "result option"

definition CliRunner_init :: "(string \<times> string) list \<Rightarrow> CliRunner" where
  "CliRunner_init tmp_env = \<lparr>env = tmp_env, last_result = None\<rparr>"

text \<open>
  \<^verbatim>\<open>super().invoke(cli.main, *args, **kwargs)\<close> is the harness of the click library: it
  is a parameter of the model. It runs the command in the current process state and either
  returns a result or (with \<^verbatim>\<open>catch_exceptions=False\<close>) lets an exception through.
\<close>

type_synonym ('a, 'b, 'm) harness =
  "CliRunner \<Rightarrow> 'a list \<Rightarrow> (string \<times> 'b) list \<Rightarrow> 'm logging_scheme
     \<Rightarrow> (exn + result) \<times> 'm logging_scheme"

text \<open>
  Modelled from the spec: \<^verbatim>\<open>util._logging.preserve_log_level\<close>, the decorator on
  \<^verbatim>\<open>invoke\<close>, whose source is not part of the files at hand. It wraps the call so that
  any change the wrapped call makes to the log level is reverted afterward, regardless of
  success or failure.
\<close>

definition preserve_log_level ::
  "('m logging_scheme \<Rightarrow> 'r \<times> 'm logging_scheme) \<Rightarrow> 'm logging_scheme
     \<Rightarrow> 'r \<times> 'm logging_scheme" where
  "preserve_log_level f g =
     (let level = log_level g;
          (r, g') = f g
      in (r, g'\<lparr>log_level := level\<rparr>))"

text \<open>The undecorated body of \<^verbatim>\<open>CliRunner.invoke\<close>.\<close>

definition invoke_body ::
  "('a, 'b, 'm) harness \<Rightarrow> CliRunner \<Rightarrow> 'a list \<Rightarrow> (string \<times> 'b) list \<Rightarrow> 'm logging_scheme
     \<Rightarrow> ((exn + result) \<times> CliRunner) \<times> 'm logging_scheme" where
  "invoke_body super_invoke self args kwargs g =
     (case super_invoke self args kwargs g of
        (Inl e, g') \<Rightarrow> ((Inl e, self), g')
      | (Inr res, g') \<Rightarrow> ((Inr res, self\<lparr>last_result := Some res\<rparr>), g'))"

definition invoke ::
  "('a, 'b, 'm) harness \<Rightarrow> CliRunner \<Rightarrow> 'a list \<Rightarrow> (string \<times> 'b) list \<Rightarrow> 'm logging_scheme
     \<Rightarrow> ((exn + result) \<times> CliRunner) \<times> 'm logging_scheme" where
  "invoke super_invoke self args kwargs =
     preserve_log_level (invoke_body super_invoke self args kwargs)"

text \<open>
  The tail of \<^verbatim>\<open>assert_exit_0\<close>, after the optional call of \<^verbatim>\<open>invoke\<close>: every
  attribute read and subscript of
  \<^verbatim>\<open>raise self.last_result.exc_info[1].__context__\<close> can fail on its own.
\<close>

definition check_last_result :: "CliRunner \<Rightarrow> exn + result" where
  "check_last_result self =
     (case last_result self of
        None \<Rightarrow>
          Inl (Exn AttributeError ''CliRunner object has no attribute last_result'' None)
      | Some res \<Rightarrow>
          if exit_code res \<noteq> 0 then
            (case exc_info res of
               None \<Rightarrow> Inl (Exn TypeError ''NoneType object is not subscriptable'' None)
             | Some (_, e, _) \<Rightarrow> Inl (py_raise (exn_context e)))
          else Inr res)"

definition assert_exit_0 ::
  "('a, 'b, 'm) harness \<Rightarrow> CliRunner \<Rightarrow> 'a list \<Rightarrow> (string \<times> 'b) list \<Rightarrow> 'm logging_scheme
     \<Rightarrow> ((exn + result) \<times> CliRunner) \<times> 'm logging_scheme" where
  "assert_exit_0 super_invoke self args kwargs g =
     (if length args + length kwargs \<noteq> 0 then
        (case invoke super_invoke self args kwargs g of
           ((Inl e, self'), g') \<Rightarrow> ((Inl e, self'), g')
         | ((Inr _, self'), g') \<Rightarrow> ((check_last_result self', self'), g'))
      else ((check_last_result self, self), g))"

text \<open>
  What the click harness stores when a command raises an ordinary exception \<open>e\<close>:
  exit code 1 and \<open>e\<close> itself in \<^verbatim>\<open>exc_info\<close>. When the command ends through a
  click exception \<open>c\<close>, click exits with \<^verbatim>\<open>SystemExit\<close> while handling \<open>c\<close>, so the
  stored exception is the \<^verbatim>\<open>SystemExit\<close> and \<open>c\<close> is its context.
\<close>

definition result_of_exception :: "exn \<Rightarrow> result" where
  "result_of_exception e =
     \<lparr>exit_code = 1, exc_info = Some (exn_class e, e, []), cli_output = []\<rparr>"

definition result_of_click_exit :: "int \<Rightarrow> exn \<Rightarrow> result" where
  "result_of_click_exit code c =
     \<lparr>exit_code = code,
      exc_info = Some (SystemExit, Exn SystemExit [] (Some c), []),
      cli_output = []\<rparr>"

section \<open>Paths and the Context\<close>

text \<open>
  A \<^verbatim>\<open>pathlib.Path\<close> is the list of its components; \<^verbatim>\<open>joinpath\<close> appends further
  components, and \<^verbatim>\<open>p / s\<close> appends one.
\<close>

type_synonym path = "string list"

definition joinpath :: "path \<Rightarrow> string list \<Rightarrow> path" where
  "joinpath p parts = p @ parts"

definition path_div :: "path \<Rightarrow> string \<Rightarrow> path" where
  "path_div p s = joinpath p [s]"

text \<open>
  Modelled from the spec: the class \<^verbatim>\<open>util.context.Context\<close>, whose source is not part
  of the files at hand. It is a mapping from option name to value (\<open>settings\<close>) with the
  additional named fields \<^verbatim>\<open>local_data\<close>, \<^verbatim>\<open>cache_path\<close>, \<^verbatim>\<open>platform_info\<close> and
  \<^verbatim>\<open>scenario_info\<close>.
\<close>

record 'v Context =
  local_data :: path
  cache_path :: path
  platform_info :: "string \<rightharpoonup> string"
  scenario_info :: "string \<rightharpoonup> string"
  settings :: "string \<rightharpoonup> 'v"

text \<open>
  Modelled from the spec: \<^verbatim>\<open>Context.setdefault(key, default)\<close>. If \<open>key\<close> is unset,
  store the default \<open>dflt\<close> and return it; else return the existing value. No error.
\<close>

definition setdefault :: "string \<Rightarrow> 'v \<Rightarrow> 'v Context \<Rightarrow> 'v \<times> 'v Context" where
  "setdefault key dflt ctx =
     (case settings ctx key of
        None \<Rightarrow> (dflt, ctx\<lparr>settings := (settings ctx)(key \<mapsto> dflt)\<rparr>)
      | Some v \<Rightarrow> (v, ctx))"

text \<open>
  Modelled from the spec: attribute-style get on a Context. It fails with an
  "attribute not found" error if the key was never set.
\<close>

definition getattr :: "'v Context \<Rightarrow> string \<Rightarrow> exn + 'v" where
  "getattr ctx key =
     (case settings ctx key of
        None \<Rightarrow> Inl (Exn AttributeError key None)
      | Some v \<Rightarrow> Inr v)"

text \<open>
  Modelled from the spec: \<^verbatim>\<open>Context.get_cache_path(*parts)\<close> returns
  \<^verbatim>\<open>local_data/"cache"/*parts\<close>, a path join of the current field value.
\<close>

definition get_cache_path :: "'v Context \<Rightarrow> string list \<Rightarrow> path" where
  "get_cache_path ctx parts = joinpath (local_data ctx) (''cache'' # parts)"

subsection \<open>The tests of \<^verbatim>\<open>tests/util/test_context.py\<close>\<close>

text \<open>
  Each test is the conjunction of its assertions: \<open>True\<close> when the test passes.
  \<^verbatim>\<open>pytest.raises(AttributeError)\<close> passes exactly when the block raises that class.
\<close>

definition test_default_value :: "int Context \<Rightarrow> bool" where
  "test_default_value test_context =
     (case getattr test_context ''foo'' of
        Inr _ \<Rightarrow> False
      | Inl e \<Rightarrow>
          exn_class e = AttributeError \<and>
          (let (r1, c1) = setdefault ''foo'' 23 test_context;
               (r2, c2) = setdefault ''foo'' 45 c1
           in r1 = 23 \<and> r2 = 23 \<and> getattr c2 ''foo'' = Inr 23))"

definition test_get_cache_path :: "'v Context \<Rightarrow> bool" where
  "test_get_cache_path test_context =
     (let base = local_data test_context
      in joinpath base [''cache'', ''pytest'', ''bar.pkl'']
           = get_cache_path test_context [''pytest'', ''bar.pkl''])"

section \<open>pytest hooks and the session fixture\<close>

text \<open>
  The option parser of pytest is the list of the options added so far.
  \<^verbatim>\<open>parser.addoption\<close> appends one. An option with action \<^verbatim>\<open>store_true\<close> is stored
  under the destination derived from its name (leading dashes dropped, inner dashes
  turned into underscores) and is true exactly when the flag occurs on the command line.
\<close>

datatype opt_action = store_true | store

record opt =
  opt_name :: string
  opt_action :: opt_action
  opt_help :: string

type_synonym parser = "opt list"

definition addoption :: "parser \<Rightarrow> string \<Rightarrow> opt_action \<Rightarrow> string \<Rightarrow> parser" where
  "addoption parser name action help =
     parser @ [\<lparr>opt_name = name, opt_action = action, opt_help = help\<rparr>]"

definition pytest_addoption :: "parser \<Rightarrow> parser" where
  "pytest_addoption parser =
     addoption parser ''--local-cache'' store_true ''Use existing local cache files in tests''"

definition opt_dest :: "string \<Rightarrow> string" where
  "opt_dest name =
     map (\<lambda>c. if c = CHR ''-'' then CHR ''_'' else c) (dropWhile (\<lambda>c. c = CHR ''-'') name)"

text \<open>
  \<^verbatim>\<open>request.config.option.<dest>\<close> for a flag: an attribute error when no option with
  that destination was added.
\<close>

definition config_option :: "parser \<Rightarrow> string list \<Rightarrow> string \<Rightarrow> exn + bool" where
  "config_option parser argv d =
     (case filter (\<lambda>x. opt_dest (opt_name x) = d \<and> opt_action x = store_true) parser of
        [] \<Rightarrow> Inl (Exn AttributeError d None)
      | x # _ \<Rightarrow> Inr (opt_name x \<in> set argv))"

text \<open>
  The process-wide state of the database layer: the platform entries of the ixmp
  configuration, the platforms whose database connection is open, a journal of the
  registrations, removals, openings and closings in the order they happened, and the
  environment of the database backend: the error, if any, with which it refuses to open
  the database of a platform name. The test bodies of a session act on the extension of
  the record.
\<close>

datatype platform_event =
  Registered string | Removed string | Opened string | Closed string

record ixmp_state =
  platform_config :: "string \<rightharpoonup> (string \<times> string) list"
  open_db_of :: "string set"
  journal :: "platform_event list"
  backend_error :: "string \<rightharpoonup> exn"

text \<open>\<^verbatim>\<open>ixmp_config.values["platform"][name] = info\<close>.\<close>

definition set_platform ::
  "string \<Rightarrow> (string \<times> string) list \<Rightarrow> 'm ixmp_state_scheme \<Rightarrow> 'm ixmp_state_scheme" where
  "set_platform name info w =
     w\<lparr>platform_config := (platform_config w)(name \<mapsto> info),
       journal := journal w @ [Registered name]\<rparr>"

text \<open>
  \<^verbatim>\<open>mp = Platform(name=...)\<close> followed by \<^verbatim>\<open>mp.open_db()\<close>: the constructor looks the
  name up in the configuration and fails for an unknown name; for a known name the
  backend may still refuse the connection, and its error is raised as it is.
\<close>

definition Platform_open_db :: "string \<Rightarrow> 'm ixmp_state_scheme \<Rightarrow> exn + 'm ixmp_state_scheme" where
  "Platform_open_db name w =
     (case platform_config w name of
        None \<Rightarrow> Inl (Exn ValueError name None)
      | Some _ \<Rightarrow>
          (case backend_error w name of
             Some e \<Rightarrow> Inl e
           | None \<Rightarrow>
               Inr (w\<lparr>open_db_of := insert name (open_db_of w),
                      journal := journal w @ [Opened name]\<rparr>)))"

text \<open>
  \<^verbatim>\<open>ixmp_config.remove_platform(name)\<close> pops the entry: a \<^verbatim>\<open>KeyError\<close> when there is
  none.
\<close>

definition remove_platform :: "string \<Rightarrow> 'm ixmp_state_scheme \<Rightarrow> exn + 'm ixmp_state_scheme" where
  "remove_platform name w =
     (case platform_config w name of
        None \<Rightarrow> Inl (Exn KeyError name None)
      | Some _ \<Rightarrow>
          Inr (w\<lparr>platform_config := (platform_config w)(name := None),
                 journal := journal w @ [Removed name]\<rparr>))"

text \<open>
  Modelled from the spec: \<^verbatim>\<open>Context.close_db()\<close>, whose source is not part of the files
  at hand, closes the connection of the platform the context names; with no open
  connection there is nothing to do.
\<close>

definition close_db :: "'v Context \<Rightarrow> 'm ixmp_state_scheme \<Rightarrow> 'm ixmp_state_scheme" where
  "close_db ctx w =
     (case platform_info ctx ''name'' of
        None \<Rightarrow> w
      | Some name \<Rightarrow>
          if name \<in> open_db_of w then
            w\<lparr>open_db_of := open_db_of w - {name}, journal := journal w @ [Closed name]\<rparr>
          else w)"

definition platform_name :: string where
  "platform_name = ''message-ix-models''"

text \<open>
  The fixture \<^verbatim>\<open>session_context\<close> up to its \<^verbatim>\<open>yield\<close>. \<open>ctx\<close> is the object that
  \<^verbatim>\<open>Context.only()\<close> returns, \<open>session_tmp_dir\<close> the directory that \<^verbatim>\<open>mktemp("data")\<close>
  returned, and \<open>local_cache\<close> the value of \<^verbatim>\<open>request.config.option.local_cache\<close>.
  The context is a shared object that the statements update in place, so the result holds
  the context as the set-up left it also when \<^verbatim>\<open>Platform(...)\<close> or \<^verbatim>\<open>open_db()\<close>
  raised: the first component is the exception raised, \<open>None\<close> when the \<^verbatim>\<open>yield\<close> is
  reached. Nothing in the source undoes the registration when the opening raises.
\<close>

definition session_context_setup ::
  "bool \<Rightarrow> path \<Rightarrow> 'v Context \<Rightarrow> 'm ixmp_state_scheme
     \<Rightarrow> exn option \<times> 'v Context \<times> 'm ixmp_state_scheme" where
  "session_context_setup local_cache session_tmp_dir ctx w =
     (let ctx1 = ctx\<lparr>cache_path :=
                   joinpath (if local_cache then local_data ctx else session_tmp_dir) [''cache'']\<rparr>;
          ctx2 = ctx1\<lparr>local_data := session_tmp_dir\<rparr>;
          w1 = set_platform platform_name
                 [(''class'', ''jdbc''), (''driver'', ''hsqldb''),
                  (''url'', ''jdbc:hsqldb:mem://'' @ platform_name)] w
      in case Platform_open_db platform_name w1 of
           Inl e \<Rightarrow> (Some e, ctx2, w1)
         | Inr w2 \<Rightarrow>
             (None, ctx2\<lparr>platform_info := (platform_info ctx2)(''name'' \<mapsto> platform_name)\<rparr>,
              w2))"

text \<open>
  The fixture after its \<^verbatim>\<open>yield\<close>: the connection is closed, then the entry removed;
  when the removal raises, the closing has happened already.
\<close>

definition session_context_teardown ::
  "'v Context \<Rightarrow> 'm ixmp_state_scheme \<Rightarrow> exn option \<times> 'm ixmp_state_scheme" where
  "session_context_teardown ctx w =
     (let w1 = close_db ctx w
      in case remove_platform platform_name w1 of
           Inl e \<Rightarrow> (Some e, w1)
         | Inr w2 \<Rightarrow> (None, w2))"

text \<open>
  A test session as pytest runs it. \<^verbatim>\<open>session_context\<close> is a session-scoped fixture
  that is not \<^verbatim>\<open>autouse\<close>: pytest sets it up when the first test that requests it
  (directly, or through \<^verbatim>\<open>test_context\<close> or \<^verbatim>\<open>mix_models_cli\<close>) is about to run, and
  keeps the outcome of the set-up for the rest of the session: the yielded context, or the
  exception the set-up raised, which every later requesting test reports again without
  the set-up being run a second time. The code after the \<^verbatim>\<open>yield\<close> runs once at the end
  of the session, whatever the outcomes of the tests, and only when the \<^verbatim>\<open>yield\<close> was
  reached. A session none of whose tests requests the fixture never runs any of it.

  A test either requests the fixture and receives the context, or does not; both kinds
  act on the part of the process state that is not the platform configuration. A body
  returns \<open>False\<close> when the test fails, which does not stop the session.
\<close>

type_synonym ('v, 'm) test_body = "'v Context \<Rightarrow> 'm \<Rightarrow> bool \<times> 'm"

datatype ('v, 'm) test = Requesting "('v, 'm) test_body" | Other "'m \<Rightarrow> bool \<times> 'm"

fun requests :: "('v, 'm) test \<Rightarrow> bool" where
  "requests (Requesting _) = True"
| "requests (Other _) = False"

datatype outcome = Passed | Failed | Errored exn

definition outcome_of :: "bool \<Rightarrow> outcome" where
  "outcome_of ok = (if ok then Passed else Failed)"

text \<open>
  The fixture value for a requesting test: the kept outcome when there is one, else the
  outcome of the set-up run now.
\<close>

definition request_fixture ::
  "bool \<Rightarrow> path \<Rightarrow> 'v Context \<Rightarrow> (exn + 'v Context) option \<Rightarrow> 'm ixmp_state_scheme
     \<Rightarrow> (exn + 'v Context) \<times> 'm ixmp_state_scheme" where
  "request_fixture local_cache session_tmp_dir ctx cached w =
     (case cached of
        Some r \<Rightarrow> (r, w)
      | None \<Rightarrow>
          (case session_context_setup local_cache session_tmp_dir ctx w of
             (Some e, _, w1) \<Rightarrow> (Inl e, w1)
           | (None, sctx, w1) \<Rightarrow> (Inr sctx, w1)))"

fun run_tests ::
  "bool \<Rightarrow> path \<Rightarrow> 'v Context \<Rightarrow> ('v, 'm) test list \<Rightarrow> (exn + 'v Context) option
     \<Rightarrow> 'm ixmp_state_scheme
     \<Rightarrow> outcome list \<times> (exn + 'v Context) option \<times> 'm ixmp_state_scheme" where
  "run_tests lc tmp ctx [] cached w = ([], cached, w)"
| "run_tests lc tmp ctx (Other t # ts) cached w =
     (let (ok, m') = t (ixmp_state.more w);
          (os, cached', w') = run_tests lc tmp ctx ts cached (w\<lparr>ixmp_state.more := m'\<rparr>)
      in (outcome_of ok # os, cached', w'))"
| "run_tests lc tmp ctx (Requesting t # ts) cached w =
     (case request_fixture lc tmp ctx cached w of
        (Inl e, w1) \<Rightarrow>
          (let (os, cached', w') = run_tests lc tmp ctx ts (Some (Inl e)) w1
           in (Errored e # os, cached', w'))
      | (Inr sctx, w1) \<Rightarrow>
          (let (ok, m') = t sctx (ixmp_state.more w1);
               (os, cached', w') =
                 run_tests lc tmp ctx ts (Some (Inr sctx)) (w1\<lparr>ixmp_state.more := m'\<rparr>)
           in (outcome_of ok # os, cached', w')))"

text \<open>
  The whole session: the outcomes of the tests, the exception of the tear-down if it
  raised, and the state at the end.
\<close>

definition run_session ::
  "bool \<Rightarrow> path \<Rightarrow> 'v Context \<Rightarrow> ('v, 'm) test list \<Rightarrow> 'm ixmp_state_scheme
     \<Rightarrow> outcome list \<times> exn option \<times> 'm ixmp_state_scheme" where
  "run_session local_cache session_tmp_dir ctx tests w =
     (case run_tests local_cache session_tmp_dir ctx tests None w of
        (os, Some (Inr sctx), w1) \<Rightarrow>
          (case session_context_teardown sctx w1 of (r, w2) \<Rightarrow> (os, r, w2))
      | (os, _, w1) \<Rightarrow> (os, None, w1))"

section \<open>Testing utility functions\<close>

text \<open>
  The modelling library and the parts of the package that the two utility functions call
  are parameters: \<open>'mp\<close> is a platform handle, \<open>'s\<close> a scenario handle and \<open>'w\<close> the
  content of the database. \<open>Scenario mp model scenario\<close> looks an existing scenario up and
  raises when there is none; the other operations are as named in the source.
\<close>

datatype filter_value = One string | Many "string list"

datatype cell = Str string | Num int | NaN

type_synonym row = "(string \<times> cell) list"

record dataframe =
  columns :: "string list"
  rows :: "row list"

type_synonym workbook = "(string \<times> dataframe) list"

record ('v, 'mp, 's, 'w) library =
  use_defaults :: "'v Context \<Rightarrow> 'v Context"
  bare_name :: "'v Context \<Rightarrow> string"
  get_platform :: "'v Context \<Rightarrow> 'mp"
  Scenario :: "'mp \<Rightarrow> string \<Rightarrow> string \<Rightarrow> 'w \<Rightarrow> exn + 's"
  create_res :: "'v Context \<Rightarrow> 'w \<Rightarrow> 's \<times> 'w"
  has_solution :: "'s \<Rightarrow> 'w \<Rightarrow> bool"
  solve :: "'s \<Rightarrow> (string \<times> int) list \<Rightarrow> bool \<Rightarrow> 'w \<Rightarrow> 'w"
  clone :: "'s \<Rightarrow> string \<Rightarrow> bool \<Rightarrow> 'w \<Rightarrow> 's \<times> 'w"
  to_excel :: "'s \<Rightarrow> (string \<times> filter_value) list \<Rightarrow> 'w \<Rightarrow> workbook"
  par_list :: "'s \<Rightarrow> 'w \<Rightarrow> string list"
  idx_names :: "'s \<Rightarrow> 'w \<Rightarrow> string \<Rightarrow> string list"

subsection \<open>\<^verbatim>\<open>bare_res\<close>\<close>

datatype node = Node (node_name: string)

datatype request = Request (request_node: node)

text \<open>
  \<^verbatim>\<open>request.node.name\<close>, where \<^verbatim>\<open>request\<close> may be \<^verbatim>\<open>None\<close>: the attribute read then
  raises \<^verbatim>\<open>AttributeError\<close>.
\<close>

definition request_node_name :: "request option \<Rightarrow> exn + string" where
  "request_node_name request =
     (case request of
        None \<Rightarrow> Inl (Exn AttributeError ''NoneType object has no attribute node'' None)
      | Some r \<Rightarrow> Inr (node_name (request_node r)))"

text \<open>The first \<^verbatim>\<open>try\<close> block: look the base scenario up, or create it.\<close>

definition lookup_or_create ::
  "('v, 'mp, 's, 'w) library \<Rightarrow> 'v Context \<Rightarrow> 'mp \<Rightarrow> string \<Rightarrow> 'w
     \<Rightarrow> exn + ('s \<times> 'v Context \<times> 'w)" where
  "lookup_or_create lib context mp name w =
     (case Scenario lib mp name ''baseline'' w of
        Inr base \<Rightarrow> Inr (base, context, w)
      | Inl e \<Rightarrow>
          if exn_class e = ValueError then
            (let context' = context\<lparr>scenario_info :=
                   scenario_info context ++ [''model'' \<mapsto> name, ''scenario'' \<mapsto> ''baseline'']\<rparr>;
                 (base, w') = create_res lib context' w
             in Inr (base, context', w'))
          else Inl e)"

text \<open>The second \<^verbatim>\<open>try\<close> block: the name of the clone.\<close>

definition clone_name :: "request option \<Rightarrow> exn + string" where
  "clone_name request =
     (case request_node_name request of
        Inr new_name \<Rightarrow> Inr new_name
      | Inl e \<Rightarrow> if exn_class e = AttributeError then Inr ''baseline'' else Inl e)"

definition bare_res ::
  "('v, 'mp, 's, 'w) library \<Rightarrow> request option \<Rightarrow> 'v Context \<Rightarrow> bool \<Rightarrow> 'w
     \<Rightarrow> exn + ('s \<times> 'v Context \<times> 'w)" where
  "bare_res lib request context solved w =
     (let context1 = use_defaults lib context;
          name = bare_name lib context1;
          mp = get_platform lib context1
      in case lookup_or_create lib context1 mp name w of
           Inl e \<Rightarrow> Inl e
         | Inr (base, context2, w1) \<Rightarrow>
             (let w2 = (if solved \<and> \<not> has_solution lib base w1
                        then solve lib base [(''lpmethod'', 4)] True w1 else w1)
              in case clone_name request of
                   Inl e \<Rightarrow> Inl e
                 | Inr new_name \<Rightarrow>
                     (let (sc, w3) = clone lib base new_name solved w2
                      in Inr (sc, context2, w3))))"

subsection \<open>\<^verbatim>\<open>export_test_data\<close>\<close>

definition remove :: "string list" where
  "remove =
     [''land'', ''mapping_macro_sector'', ''sector'', ''MERtoPPP'', ''aeei'',
      ''cost_MESSAGE'', ''demand'', ''demand_MESSAGE'', ''depr'', ''esub'', ''grow'',
      ''historical_gdp'', ''kgdp'', ''lotol'', ''prfconst'', ''kpvs'', ''lakl'',
      ''price_MESSAGE'', ''gdp_calibrate'']"

definition nodes :: "string list" where
  "nodes = [''R11_AFR'', ''R11_CPA'']"

text \<open>
  \<^verbatim>\<open>any(x in s for x in remove)\<close> on a string \<open>s\<close>: some entry of the exclusion list
  occurs in \<open>s\<close> as a contiguous substring.
\<close>

definition excluded :: "string \<Rightarrow> bool" where
  "excluded s = list_ex (\<lambda>x. sublist x s) remove"

text \<open>The same test on a cell: \<^verbatim>\<open>x in i\<close> raises when \<open>i\<close> is not a string.\<close>

definition excluded_cell :: "cell \<Rightarrow> exn + bool" where
  "excluded_cell c =
     (case c of
        Str s \<Rightarrow> Inr (excluded s)
      | _ \<Rightarrow> Inl (Exn TypeError ''argument is not iterable'' None))"

text \<open>A cell of a row; a value the row does not have reads as \<^verbatim>\<open>NaN\<close>.\<close>

definition cell_of :: "row \<Rightarrow> string \<Rightarrow> cell" where
  "cell_of r col = (case map_of r col of None \<Rightarrow> NaN | Some c \<Rightarrow> c)"

text \<open>\<^verbatim>\<open>df[col].tolist()\<close>; \<open>missing\<close> is the exception for a column the frame lacks.\<close>

definition tolist :: "exc_class \<Rightarrow> dataframe \<Rightarrow> string \<Rightarrow> exn + cell list" where
  "tolist missing df col =
     (if col \<in> set (columns df) then Inr (map (\<lambda>r. cell_of r col) (rows df))
      else Inl (Exn missing col None))"

text \<open>\<^verbatim>\<open>df[df[col].isin(values)]\<close>: the rows whose cell in \<open>col\<close> is one of the values.\<close>

definition select_isin :: "exc_class \<Rightarrow> dataframe \<Rightarrow> string \<Rightarrow> cell list \<Rightarrow> exn + dataframe" where
  "select_isin missing df col vals =
     (if col \<in> set (columns df)
      then Inr (df\<lparr>rows := filter (\<lambda>r. cell_of r col \<in> set vals) (rows df)\<rparr>)
      else Inl (Exn missing col None))"

text \<open>\<^verbatim>\<open>[i for i in items if not any(x in i for x in remove)]\<close>.\<close>

fun keep_items :: "cell list \<Rightarrow> exn + cell list" where
  "keep_items [] = Inr []"
| "keep_items (i # items) =
     (case excluded_cell i of
        Inl e \<Rightarrow> Inl e
      | Inr b \<Rightarrow>
          (case keep_items items of
             Inl e \<Rightarrow> Inl e
           | Inr kept \<Rightarrow> Inr (if \<not> b then i # kept else kept)))"

text \<open>The body of the loop over the sheets, up to the write.\<close>

definition clean_sheet :: "string list \<Rightarrow> (string \<Rightarrow> string list) \<Rightarrow> string \<Rightarrow> dataframe
     \<Rightarrow> exn + dataframe" where
  "clean_sheet pars idx sheet df =
     (if sheet = ''ix_type_mapping'' then
        (case tolist AttributeError df ''item'' of
           Inl e \<Rightarrow> Inl e
         | Inr items \<Rightarrow>
             (case keep_items items of
                Inl e \<Rightarrow> Inl e
              | Inr kept \<Rightarrow> select_isin AttributeError df ''item'' kept))
      else if sheet \<in> set pars then
        (case filter (\<lambda>i. sublist ''node'' i) (idx sheet) of
           [] \<Rightarrow> Inr df
         | node_idx0 # _ \<Rightarrow> select_isin KeyError df node_idx0 (map Str nodes))
      else Inr df)"

text \<open>\<^verbatim>\<open>reader.parse(sheet)\<close>.\<close>

definition parse :: "workbook \<Rightarrow> string \<Rightarrow> exn + dataframe" where
  "parse reader sheet =
     (case map_of reader sheet of
        None \<Rightarrow> Inl (Exn ValueError sheet None)
      | Some df \<Rightarrow> Inr df)"

text \<open>The loop: each cleaned sheet is appended to the writer.\<close>

fun write_sheets :: "string list \<Rightarrow> (string \<Rightarrow> string list) \<Rightarrow> workbook \<Rightarrow> string list
     \<Rightarrow> workbook \<Rightarrow> exn + workbook" where
  "write_sheets pars idx reader [] writer = Inr writer"
| "write_sheets pars idx reader (sheet # rest) writer =
     (case parse reader sheet of
        Inl e \<Rightarrow> Inl e
      | Inr df \<Rightarrow>
          (case clean_sheet pars idx sheet df of
             Inl e \<Rightarrow> Inl e
           | Inr df' \<Rightarrow> write_sheets pars idx reader rest (writer @ [(sheet, df')])))"

definition src_model :: string where
  "src_model = ''ENGAGE_SSP2_v4.1.7''"

definition src_scenario :: string where
  "src_scenario = ''baseline''"

definition technology :: string where
  "technology = ''coal_ppl''"

definition dest_file :: string where
  "dest_file = src_model @ ''_'' @ src_scenario @ ''_'' @ technology @ ''.xlsx''"

definition export_filters :: "(string \<times> filter_value) list" where
  "export_filters =
     [(''technology'', One technology), (''node'', Many nodes), (''node_dest'', Many nodes),
      (''node_loc'', Many nodes), (''node_origin'', Many nodes)]"

text \<open>
  The files are a map from file name to workbook. The writer holds its sheets in memory
  and touches the file at \<^verbatim>\<open>writer.save()\<close> only, so an exception in the loop leaves
  the exported file as it is.
\<close>

definition export_test_data ::
  "('v, 'mp, 's, 'w) library \<Rightarrow> 'v Context \<Rightarrow> 'w \<Rightarrow> (string \<rightharpoonup> workbook)
     \<Rightarrow> exn option \<times> (string \<rightharpoonup> workbook)" where
  "export_test_data lib context w files =
     (case Scenario lib (get_platform lib context) src_model src_scenario w of
        Inl e \<Rightarrow> (Some e, files)
      | Inr scen \<Rightarrow>
          (let reader = to_excel lib scen export_filters w;
               files1 = files(dest_file \<mapsto> reader);
               sheets = filter (\<lambda>s. \<not> excluded s) (map fst reader)
           in case write_sheets (par_list lib scen w) (idx_names lib scen w) reader sheets [] of
                Inl e \<Rightarrow> (Some e, files1)
              | Inr writer \<Rightarrow> (None, files1(dest_file \<mapsto> writer))))"

subsection \<open>The outcome of the export, stated on its own\<close>

text \<open>
  The rows of a sheet that the clean-up is to keep: on the sheet \<^verbatim>\<open>ix_type_mapping\<close> the
  rows whose item is a string that contains no entry of the exclusion list; on the sheet of
  a parameter the rows whose cell in the first index name containing \<^verbatim>\<open>node\<close> is one of
  the target nodes (every row when the parameter has no such index name); on any other
  sheet every row.
\<close>

definition cell_kept :: "cell \<Rightarrow> bool" where
  "cell_kept c = (case c of Str t \<Rightarrow> \<not> excluded t | _ \<Rightarrow> False)"

definition kept_rows ::
  "string list \<Rightarrow> (string \<Rightarrow> string list) \<Rightarrow> string \<Rightarrow> dataframe \<Rightarrow> row list" where
  "kept_rows pars idx sheet df =
     (if sheet = ''ix_type_mapping'' then filter (\<lambda>r. cell_kept (cell_of r ''item'')) (rows df)
      else if sheet \<in> set pars then
        (case filter (\<lambda>i. sublist ''node'' i) (idx sheet) of
           [] \<Rightarrow> rows df
         | c # _ \<Rightarrow> filter (\<lambda>r. cell_of r c \<in> Str ` set nodes) (rows df))
      else rows df)"

text \<open>
  An exported sheet on which the clean-up raises nothing: \<^verbatim>\<open>ix_type_mapping\<close> has a
  column \<^verbatim>\<open>item\<close> holding strings, and the sheet of a parameter has the column of its
  first node index.
\<close>

definition sheet_ok ::
  "string list \<Rightarrow> (string \<Rightarrow> string list) \<Rightarrow> string \<Rightarrow> dataframe \<Rightarrow> bool" where
  "sheet_ok pars idx sheet df =
     (if sheet = ''ix_type_mapping'' then
        ''item'' \<in> set (columns df) \<and>
        list_all (\<lambda>r. case cell_of r ''item'' of Str t \<Rightarrow> True | _ \<Rightarrow> False) (rows df)
      else if sheet \<in> set pars then
        (case filter (\<lambda>i. sublist ''node'' i) (idx sheet) of
           [] \<Rightarrow> True
         | c # _ \<Rightarrow> c \<in> set (columns df))
      else True)"

definition export_well_formed ::
  "string list \<Rightarrow> (string \<Rightarrow> string list) \<Rightarrow> workbook \<Rightarrow> bool" where
  "export_well_formed pars idx reader =
     list_all (\<lambda>s. excluded s \<or>
                 (case map_of reader s of
                    None \<Rightarrow> False
                  | Some df \<Rightarrow> sheet_ok pars idx s df)) (map fst reader)"

section \<open>Sample data\<close>

text \<open>
  A context, and a small in-memory modelling library on which the utility functions can be
  run: the database is the list of its scenarios, each with the flag of a stored solution.
\<close>

definition sample_context :: "int Context" where
  "sample_context =
     \<lparr>local_data = [''home'', ''user'', ''data''], cache_path = [''home'', ''user'', ''cache''],
      platform_info = Map.empty, scenario_info = Map.empty, settings = Map.empty\<rparr>"

definition fresh_state :: ixmp_state where
  "fresh_state =
     \<lparr>platform_config = Map.empty, open_db_of = {}, journal = [], backend_error = Map.empty\<rparr>"

definition refusing_state :: ixmp_state where
  "refusing_state =
     \<lparr>platform_config = Map.empty, open_db_of = {}, journal = [],
      backend_error = [platform_name \<mapsto> Exn ConnectionError ''no JVM'' None]\<rparr>"

definition sample_tests :: "(int, unit) test list" where
  "sample_tests =
     [Other (\<lambda>m. (True, m)), Requesting (\<lambda>c m. (False, m)), Requesting (\<lambda>c m. (True, m))]"

type_synonym toy_db = "((string \<times> string) \<times> bool) list"

definition toy_workbook :: workbook where
  "toy_workbook =
     [(''ix_type_mapping'',
        \<lparr>columns = [''item'', ''ix_type''],
         rows = [[(''item'', Str ''output''), (''ix_type'', Str ''par'')],
                 [(''item'', Str ''demand''), (''ix_type'', Str ''par'')],
                 [(''item'', Str ''technology''), (''ix_type'', Str ''set'')]]\<rparr>),
      (''demand'',
        \<lparr>columns = [''node'', ''value''],
         rows = [[(''node'', Str ''R11_AFR''), (''value'', Num 1)]]\<rparr>),
      (''output'',
        \<lparr>columns = [''node_loc'', ''technology'', ''node_dest'', ''value''],
         rows = [[(''node_loc'', Str ''R11_AFR''), (''technology'', Str ''coal_ppl''),
                  (''node_dest'', Str ''R11_WEU''), (''value'', Num 1)],
                 [(''node_loc'', Str ''R11_WEU''), (''technology'', Str ''coal_ppl''),
                  (''node_dest'', Str ''R11_AFR''), (''value'', Num 2)]]\<rparr>),
      (''technology'',
        \<lparr>columns = [''technology''],
         rows = [[(''technology'', Str ''coal_ppl'')], [(''technology'', Str ''gas_ppl'')]]\<rparr>)]"

definition toy_library :: "(int, unit, string \<times> string, toy_db) library" where
  "toy_library =
     \<lparr>use_defaults = (\<lambda>c. c\<lparr>settings := (settings c)(''regions'' \<mapsto> 14)\<rparr>),
      bare_name = (\<lambda>c. if settings c ''regions'' = Some 14 then ''RES R14'' else ''RES''),
      get_platform = (\<lambda>c. ()),
      Scenario = (\<lambda>mp m s w.
        if (m, s) \<in> set (map fst w) then Inr (m, s) else Inl (Exn ValueError s None)),
      create_res = (\<lambda>c w.
        (case (scenario_info c ''model'', scenario_info c ''scenario'') of
           (Some m, Some s) \<Rightarrow> ((m, s), ((m, s), False) # w)
         | _ \<Rightarrow> (([], []), w))),
      has_solution = (\<lambda>s w. map_of w s = Some True),
      solve = (\<lambda>s opts quiet w. (s, True) # w),
      clone = (\<lambda>s n keep w. ((fst s, n), ((fst s, n), keep \<and> map_of w s = Some True) # w)),
      to_excel = (\<lambda>s f w. toy_workbook),
      par_list = (\<lambda>s w. [''demand'', ''output'']),
      idx_names = (\<lambda>s w p.
        if p = ''output'' then [''node_loc'', ''technology'', ''node_dest'']
        else if p = ''demand'' then [''node''] else [])\<rparr>"

section \<open>Properties of the CLI test runner\<close>

lemma preserve_log_level_level:
  "log_level (snd (preserve_log_level f g)) = log_level g"
  by (simp add: preserve_log_level_def Let_def split: prod.splits)

lemma preserve_log_level_fst:
  "fst (preserve_log_level f g) = fst (f g)"
  by (simp add: preserve_log_level_def Let_def split: prod.splits)

lemma invoke_level: "log_level (snd (invoke h self args kwargs g)) = log_level g"
  by (simp add: invoke_def preserve_log_level_level)

lemma invoke_fst:
  "fst (invoke h self args kwargs g) =
     (case fst (h self args kwargs g) of
        Inl e \<Rightarrow> (Inl e, self)
      | Inr res \<Rightarrow> (Inr res, self\<lparr>last_result := Some res\<rparr>))"
  by (simp add: invoke_def preserve_log_level_fst invoke_body_def split: prod.splits sum.splits)

lemma check_last_result_zero:
  "last_result self = Some res \<Longrightarrow> exit_code res = 0 \<Longrightarrow> check_last_result self = Inr res"
  by (simp add: check_last_result_def)

lemma check_last_result_click_exit:
  "last_result self = Some (result_of_click_exit code c) \<Longrightarrow> code \<noteq> 0 \<Longrightarrow>
     check_last_result self = Inl c"
  by (simp add: check_last_result_def result_of_click_exit_def py_raise_def)

text \<open>
  Claim C1. \<^verbatim>\<open>assert_exit_0\<close> called with arguments first calls \<^verbatim>\<open>invoke\<close>; if the
  stored result has a non-zero exit code it is to re-raise the exception that was captured
  during the invocation. The code raises the \<^verbatim>\<open>__context__\<close> of the captured exception
  instead. When a command raises an ordinary exception (here a \<^verbatim>\<open>RuntimeError\<close> raised
  outside any handler) the harness captures that exception itself, its context is
  \<^verbatim>\<open>None\<close>, and \<^verbatim>\<open>assert_exit_0\<close> ends in the \<^verbatim>\<open>TypeError\<close> of \<^verbatim>\<open>raise None\<close>: neither
  the captured exception nor any exception of the command. The same happens without
  arguments on the stored result.
\<close>

theorem assert_exit_0_plain_exception:
  "fst (assert_exit_0
          (\<lambda>self args kwargs g. (Inr (result_of_exception (Exn RuntimeError ''boom'' None)), g))
          (CliRunner_init []) [[''_test'', ''raise'']] ([] :: (string \<times> bool) list)
          \<lparr>log_level = 20\<rparr>)
     = (Inl (Exn TypeError ''exceptions must derive from BaseException'' None),
        \<lparr>env = [], last_result = Some (result_of_exception (Exn RuntimeError ''boom'' None))\<rparr>)
   \<and> fst (assert_exit_0
          (\<lambda>self args kwargs g. (Inr (result_of_exception (Exn RuntimeError ''boom'' None)), g))
          \<lparr>env = [], last_result = Some (result_of_exception (Exn RuntimeError ''boom'' None))\<rparr>
          ([] :: string list list) ([] :: (string \<times> bool) list) \<lparr>log_level = 20\<rparr>)
     = (Inl (Exn TypeError ''exceptions must derive from BaseException'' None),
        \<lparr>env = [], last_result = Some (result_of_exception (Exn RuntimeError ''boom'' None))\<rparr>)"
  by (simp add: assert_exit_0_def invoke_def invoke_body_def preserve_log_level_def
      check_last_result_def result_of_exception_def py_raise_def CliRunner_init_def)

text \<open>
  Claim C2. Every call of \<^verbatim>\<open>CliRunner.invoke\<close> leaves the log level as it was before
  the call, whatever the invoked command did to it and whether the harness returned a
  result (of any exit code) or raised; and a returned result is stored in
  \<^verbatim>\<open>last_result\<close> and returned.
\<close>

theorem invoke_preserves_log_level:
  "log_level (snd (invoke h self args kwargs g)) = log_level g \<and>
   (\<forall>res. fst (h self args kwargs g) = Inr res \<longrightarrow>
      fst (invoke h self args kwargs g) = (Inr res, self\<lparr>last_result := Some res\<rparr>))"
  by (simp add: invoke_level invoke_fst)

theorem invoke_preserves_log_level_witness:
  "fst ((\<lambda>self (args :: string list list) (kwargs :: (string \<times> bool) list) g.
           (Inr (result_of_exception (Exn RuntimeError ''boom'' None)), g\<lparr>log_level := 10\<rparr>))
         (CliRunner_init []) [[''--verbose'', ''_test'']] [] \<lparr>log_level = 20\<rparr>)
     = Inr (result_of_exception (Exn RuntimeError ''boom'' None))
   \<and> log_level (snd (invoke
         (\<lambda>self (args :: string list list) (kwargs :: (string \<times> bool) list) g.
           (Inr (result_of_exception (Exn RuntimeError ''boom'' None)), g\<lparr>log_level := 10\<rparr>))
         (CliRunner_init []) [[''--verbose'', ''_test'']] [] \<lparr>log_level = 20\<rparr>)) = 20
   \<and> fst (invoke
         (\<lambda>self (args :: string list list) (kwargs :: (string \<times> bool) list) g.
           (Inr (result_of_exception (Exn RuntimeError ''boom'' None)), g\<lparr>log_level := 10\<rparr>))
         (CliRunner_init []) [[''--verbose'', ''_test'']] [] \<lparr>log_level = 20\<rparr>)
     = (Inr (result_of_exception (Exn RuntimeError ''boom'' None)),
        \<lparr>env = [], last_result = Some (result_of_exception (Exn RuntimeError ''boom'' None))\<rparr>)"
  using invoke_preserves_log_level
    [of "\<lambda>self (args :: string list list) (kwargs :: (string \<times> bool) list) g.
           (Inr (result_of_exception (Exn RuntimeError ''boom'' None)), g\<lparr>log_level := 10\<rparr>)"
        "CliRunner_init []" "[[''--verbose'', ''_test'']]" "[]" "\<lparr>log_level = 20\<rparr>"]
  by (simp add: CliRunner_init_def)

text \<open>
  Claim C10. \<^verbatim>\<open>last_result\<close> is assigned inside \<^verbatim>\<open>invoke\<close> only, so a runner on which
  \<^verbatim>\<open>invoke\<close> has not been called has no such attribute, and \<^verbatim>\<open>assert_exit_0\<close> without
  arguments raises \<^verbatim>\<open>AttributeError\<close> on it, leaving the runner and the process state
  as they were.
\<close>

theorem assert_exit_0_before_invoke:
  "last_result self = None \<Longrightarrow>
     assert_exit_0 h self [] [] g =
       ((Inl (Exn AttributeError ''CliRunner object has no attribute last_result'' None), self),
        g)"
  by (simp add: assert_exit_0_def check_last_result_def)

theorem assert_exit_0_before_invoke_witness:
  "last_result (CliRunner_init [(''HOME'', ''/tmp'')]) = None \<and>
   assert_exit_0
      (\<lambda>self (args :: string list list) (kwargs :: (string \<times> bool) list) g.
         (Inr \<lparr>exit_code = 0, exc_info = None, cli_output = []\<rparr>, g))
      (CliRunner_init [(''HOME'', ''/tmp'')]) [] [] \<lparr>log_level = 20\<rparr> =
     ((Inl (Exn AttributeError ''CliRunner object has no attribute last_result'' None),
       CliRunner_init [(''HOME'', ''/tmp'')]), \<lparr>log_level = 20\<rparr>)"
  using assert_exit_0_before_invoke [of "CliRunner_init [(''HOME'', ''/tmp'')]"]
  by (simp add: CliRunner_init_def)

section \<open>Properties of the Context\<close>

lemma foldl_path_div: "foldl path_div p parts = joinpath p parts"
  by (induction parts arbitrary: p) (simp_all add: path_div_def joinpath_def)

text \<open>
  Claim C5. For any \<^verbatim>\<open>local_data\<close> and any parts, \<^verbatim>\<open>get_cache_path(*parts)\<close> is the
  path \<^verbatim>\<open>local_data / "cache" / parts...\<close>; it depends on no other field of the context;
  \<^verbatim>\<open>get_cache_path("pytest", "bar.pkl")\<close> is
  \<^verbatim>\<open>local_data / "cache" / "pytest" / "bar.pkl"\<close>, and the test of the repository that
  compares the two passes on every context.
\<close>

theorem get_cache_path_join:
  "get_cache_path ctx parts = foldl path_div (path_div (local_data ctx) ''cache'') parts \<and>
   get_cache_path ctx [''pytest'', ''bar.pkl'']
     = path_div (path_div (path_div (local_data ctx) ''cache'') ''pytest'') ''bar.pkl'' \<and>
   get_cache_path
       (ctx\<lparr>cache_path := cp, platform_info := pi, scenario_info := si, settings := st\<rparr>) parts
     = get_cache_path ctx parts \<and>
   test_get_cache_path ctx"
  by (simp add: get_cache_path_def foldl_path_div test_get_cache_path_def)
     (simp add: joinpath_def path_div_def)

text \<open>
  Claim C7. On a context where the key \<open>k\<close> is unset, \<^verbatim>\<open>setdefault(k, v1)\<close> returns
  \<open>v1\<close> and stores it, and a following \<^verbatim>\<open>setdefault(k, v2)\<close> returns \<open>v1\<close> again and
  leaves \<open>v1\<close> stored; on a context where \<open>k\<close> has a value, \<^verbatim>\<open>setdefault\<close> returns that
  value and changes nothing. The test \<^verbatim>\<open>test_default_value\<close> passes on every context
  where \<^verbatim>\<open>foo\<close> is unset.
\<close>

theorem setdefault_keeps_first:
  "(settings ctx k = None \<longrightarrow>
      fst (setdefault k v1 ctx) = v1 \<and>
      settings (snd (setdefault k v1 ctx)) k = Some v1 \<and>
      fst (setdefault k v2 (snd (setdefault k v1 ctx))) = v1 \<and>
      settings (snd (setdefault k v2 (snd (setdefault k v1 ctx)))) k = Some v1) \<and>
   (\<forall>x. settings ctx k = Some x \<longrightarrow> setdefault k v2 ctx = (x, ctx)) \<and>
   (\<forall>c. settings c ''foo'' = None \<longrightarrow> test_default_value c)"
  by (simp add: setdefault_def test_default_value_def getattr_def)

theorem setdefault_keeps_first_witness:
  "settings sample_context ''foo'' = None \<and>
   fst (setdefault ''foo'' 23 sample_context) = 23 \<and>
   settings (snd (setdefault ''foo'' 23 sample_context)) ''foo'' = Some 23 \<and>
   fst (setdefault ''foo'' 45 (snd (setdefault ''foo'' 23 sample_context))) = 23 \<and>
   setdefault ''foo'' 45 (snd (setdefault ''foo'' 23 sample_context))
     = (23, snd (setdefault ''foo'' 23 sample_context)) \<and>
   test_default_value sample_context"
  using setdefault_keeps_first [of sample_context "''foo''" 23 45]
    setdefault_keeps_first [of "snd (setdefault ''foo'' 23 sample_context)" "''foo''" 23 45]
  by (simp add: sample_context_def)

text \<open>
  Claim C8. Attribute-style access for a key that is not set fails with the
  attribute-not-found error, and returns no value at all.
\<close>

theorem getattr_unset:
  "settings ctx k = None \<Longrightarrow>
     getattr ctx k = Inl (Exn AttributeError k None) \<and> (\<forall>v. getattr ctx k \<noteq> Inr v)"
  by (simp add: getattr_def)

theorem getattr_unset_witness:
  "settings sample_context ''foo'' = None \<and>
   getattr sample_context ''foo'' = Inl (Exn AttributeError ''foo'' None)"
  using getattr_unset [of sample_context "''foo''"]
  by (simp add: sample_context_def)

section \<open>Properties of the hooks and the session fixture\<close>

lemma opt_dest_local_cache: "opt_dest ''--local-cache'' = ''local_cache''"
  by (simp add: opt_dest_def)

lemma filter_no_dest:
  "\<forall>x\<in>set parser. opt_dest (opt_name x) \<noteq> d \<Longrightarrow>
     filter (\<lambda>x. opt_dest (opt_name x) = d \<and> opt_action x = store_true) parser = []"
  by (induction parser) simp_all

lemma setup_ok:
  "backend_error w platform_name = None \<Longrightarrow>
   session_context_setup lc tmp ctx w =
     (None,
      ctx\<lparr>cache_path := joinpath (if lc then local_data ctx else tmp) [''cache''],
          local_data := tmp,
          platform_info := (platform_info ctx)(''name'' \<mapsto> platform_name)\<rparr>,
      w\<lparr>platform_config := (platform_config w)(platform_name \<mapsto>
             [(''class'', ''jdbc''), (''driver'', ''hsqldb''),
              (''url'', ''jdbc:hsqldb:mem://'' @ platform_name)]),
        open_db_of := insert platform_name (open_db_of w),
        journal := journal w @ [Registered platform_name, Opened platform_name]\<rparr>)"
  by (simp add: session_context_setup_def Let_def set_platform_def Platform_open_db_def)

lemma setup_refused:
  "backend_error w platform_name = Some e \<Longrightarrow>
   session_context_setup lc tmp ctx w =
     (Some e,
      ctx\<lparr>cache_path := joinpath (if lc then local_data ctx else tmp) [''cache''],
          local_data := tmp\<rparr>,
      w\<lparr>platform_config := (platform_config w)(platform_name \<mapsto>
             [(''class'', ''jdbc''), (''driver'', ''hsqldb''),
              (''url'', ''jdbc:hsqldb:mem://'' @ platform_name)]),
        journal := journal w @ [Registered platform_name]\<rparr>)"
  by (simp add: session_context_setup_def Let_def set_platform_def Platform_open_db_def)

lemma setup_context:
  "cache_path (fst (snd (session_context_setup lc tmp ctx w)))
     = joinpath (if lc then local_data ctx else tmp) [''cache''] \<and>
   local_data (fst (snd (session_context_setup lc tmp ctx w))) = tmp"
  by (cases "backend_error w platform_name") (simp_all add: setup_ok setup_refused)

text \<open>
  Claim C6. \<^verbatim>\<open>pytest_addoption\<close> adds the flag \<^verbatim>\<open>--local-cache\<close> with action
  \<^verbatim>\<open>store_true\<close>, so that (no other option having the same destination) the option
  \<^verbatim>\<open>local_cache\<close> is true exactly when the flag is on the command line; and the fixture's
  set-up, whether or not the platform calls that follow succeed, leaves \<^verbatim>\<open>cache_path\<close>
  set to \<^verbatim>\<open>cache\<close> under the context's previous \<^verbatim>\<open>local_data\<close> when the flag is given
  and under the session's temporary directory otherwise, \<^verbatim>\<open>local_data\<close> itself becoming
  the temporary directory; when the backend does not refuse the connection the set-up
  raises nothing and yields that context.
\<close>

theorem local_cache_option:
  "\<lparr>opt_name = ''--local-cache'', opt_action = store_true,
      opt_help = ''Use existing local cache files in tests''\<rparr> \<in> set (pytest_addoption parser) \<and>
   ((\<forall>x\<in>set parser. opt_dest (opt_name x) \<noteq> ''local_cache'') \<longrightarrow>
      config_option (pytest_addoption parser) argv ''local_cache''
        = Inr (''--local-cache'' \<in> set argv)) \<and>
   cache_path (fst (snd (session_context_setup lc tmp ctx w)))
     = joinpath (if lc then local_data ctx else tmp) [''cache''] \<and>
   local_data (fst (snd (session_context_setup lc tmp ctx w))) = tmp \<and>
   (backend_error w platform_name = None \<longrightarrow>
      (\<exists>sctx w'. session_context_setup lc tmp ctx w = (None, sctx, w') \<and>
         cache_path sctx = joinpath (if lc then local_data ctx else tmp) [''cache''] \<and>
         local_data sctx = tmp))"
proof (intro conjI impI)
  show "\<lparr>opt_name = ''--local-cache'', opt_action = store_true,
      opt_help = ''Use existing local cache files in tests''\<rparr> \<in> set (pytest_addoption parser)"
    by (simp add: pytest_addoption_def addoption_def)
next
  assume "\<forall>x\<in>set parser. opt_dest (opt_name x) \<noteq> ''local_cache''"
  then show "config_option (pytest_addoption parser) argv ''local_cache''
        = Inr (''--local-cache'' \<in> set argv)"
    by (simp add: config_option_def pytest_addoption_def addoption_def filter_no_dest
        opt_dest_local_cache)
next
  show "cache_path (fst (snd (session_context_setup lc tmp ctx w)))
     = joinpath (if lc then local_data ctx else tmp) [''cache'']"
    by (simp add: setup_context)
next
  show "local_data (fst (snd (session_context_setup lc tmp ctx w))) = tmp"
    by (simp add: setup_context)
next
  assume "backend_error w platform_name = None"
  then show "\<exists>sctx w'. session_context_setup lc tmp ctx w = (None, sctx, w') \<and>
         cache_path sctx = joinpath (if lc then local_data ctx else tmp) [''cache''] \<and>
         local_data sctx = tmp"
    by (simp add: setup_ok)
qed

theorem local_cache_option_witness:
  "opt_dest (opt_name \<lparr>opt_name = ''--runslow'', opt_action = store_true, opt_help = []\<rparr>)
     \<noteq> ''local_cache'' \<and>
   config_option
     (pytest_addoption [\<lparr>opt_name = ''--runslow'', opt_action = store_true, opt_help = []\<rparr>])
     [''-x'', ''--local-cache''] ''local_cache'' = Inr True \<and>
   config_option
     (pytest_addoption [\<lparr>opt_name = ''--runslow'', opt_action = store_true, opt_help = []\<rparr>])
     [''-x'', ''--runslow''] ''local_cache'' = Inr False \<and>
   backend_error fresh_state platform_name = None \<and>
   fst (session_context_setup True [''tmp'', ''data0''] sample_context fresh_state) = None \<and>
   cache_path (fst (snd
     (session_context_setup True [''tmp'', ''data0''] sample_context fresh_state)))
     = [''home'', ''user'', ''data'', ''cache''] \<and>
   fst (session_context_setup False [''tmp'', ''data0''] sample_context fresh_state) = None \<and>
   cache_path (fst (snd
     (session_context_setup False [''tmp'', ''data0''] sample_context fresh_state)))
     = [''tmp'', ''data0'', ''cache''] \<and>
   cache_path (fst (snd
     (session_context_setup True [''tmp'', ''data0''] sample_context refusing_state)))
     = [''home'', ''user'', ''data'', ''cache'']"
  using local_cache_option
      [where parser = "[\<lparr>opt_name = ''--runslow'', opt_action = store_true, opt_help = []\<rparr>]"
         and argv = "[''-x'', ''--local-cache'']" and lc = True and tmp = "[''tmp'', ''data0'']"
         and ctx = sample_context and w = fresh_state]
    local_cache_option
      [where parser = "[\<lparr>opt_name = ''--runslow'', opt_action = store_true, opt_help = []\<rparr>]"
         and argv = "[''-x'', ''--runslow'']" and lc = False and tmp = "[''tmp'', ''data0'']"
         and ctx = sample_context and w = fresh_state]
    local_cache_option
      [where parser = "[\<lparr>opt_name = ''--runslow'', opt_action = store_true, opt_help = []\<rparr>]"
         and argv = "[''-x'', ''--local-cache'']" and lc = True and tmp = "[''tmp'', ''data0'']"
         and ctx = sample_context and w = refusing_state]
  by (auto simp: opt_dest_def sample_context_def joinpath_def fresh_state_def)

lemma run_tests_cached:
  "run_tests lc tmp ctx ts (Some r) w = (os, c', w') \<Longrightarrow>
     c' = Some r \<and> length os = length ts \<and> platform_config w' = platform_config w \<and>
     open_db_of w' = open_db_of w \<and> journal w' = journal w \<and>
     backend_error w' = backend_error w"
proof (induction ts arbitrary: w os c' w')
  case Nil
  then show ?case by simp
next
  case (Cons t ts)
  show ?case
  proof (cases t)
    case (Other b)
    obtain ok m' where b: "b (ixmp_state.more w) = (ok, m')"
      by (cases "b (ixmp_state.more w)")
    obtain os1 c1 w1 where
      r: "run_tests lc tmp ctx ts (Some r) (w\<lparr>ixmp_state.more := m'\<rparr>) = (os1, c1, w1)"
      by (cases "run_tests lc tmp ctx ts (Some r) (w\<lparr>ixmp_state.more := m'\<rparr>)")
    from Cons.prems Other b r have eq: "os = outcome_of ok # os1" "c' = c1" "w' = w1"
      by simp_all
    from Cons.IH [OF r] eq show ?thesis by simp
  next
    case (Requesting b)
    show ?thesis
    proof (cases r)
      case (Inl e)
      obtain os1 c1 w1 where
        r1: "run_tests lc tmp ctx ts (Some r) w = (os1, c1, w1)"
        by (cases "run_tests lc tmp ctx ts (Some r) w")
      from Cons.prems Requesting Inl r1
      have eq: "os = Errored e # os1" "c' = c1" "w' = w1"
        by (simp_all add: request_fixture_def)
      from Cons.IH [OF r1] eq show ?thesis by simp
    next
      case (Inr sctx)
      obtain ok m' where b: "b sctx (ixmp_state.more w) = (ok, m')"
        by (cases "b sctx (ixmp_state.more w)")
      obtain os1 c1 w1 where
        r1: "run_tests lc tmp ctx ts (Some r) (w\<lparr>ixmp_state.more := m'\<rparr>) = (os1, c1, w1)"
        by (cases "run_tests lc tmp ctx ts (Some r) (w\<lparr>ixmp_state.more := m'\<rparr>)")
      from Cons.prems Requesting Inr b r1
      have eq: "os = outcome_of ok # os1" "c' = c1" "w' = w1"
        by (simp_all add: request_fixture_def)
      from Cons.IH [OF r1] eq show ?thesis by simp
    qed
  qed
qed

lemma run_tests_unrequested:
  "\<not> list_ex requests ts \<Longrightarrow> run_tests lc tmp ctx ts None w = (os, c', w') \<Longrightarrow>
     c' = None \<and> length os = length ts \<and> platform_config w' = platform_config w \<and>
     open_db_of w' = open_db_of w \<and> journal w' = journal w \<and>
     backend_error w' = backend_error w"
proof (induction ts arbitrary: w os c' w')
  case Nil
  then show ?case by simp
next
  case (Cons t ts)
  from Cons.prems(1) obtain b where t: "t = Other b" and rest: "\<not> list_ex requests ts"
    by (cases t) simp_all
  obtain ok m' where b: "b (ixmp_state.more w) = (ok, m')"
    by (cases "b (ixmp_state.more w)")
  obtain os1 c1 w1 where
    r: "run_tests lc tmp ctx ts None (w\<lparr>ixmp_state.more := m'\<rparr>) = (os1, c1, w1)"
    by (cases "run_tests lc tmp ctx ts None (w\<lparr>ixmp_state.more := m'\<rparr>)")
  from Cons.prems(2) t b r have eq: "os = outcome_of ok # os1" "c' = c1" "w' = w1"
    by simp_all
  from Cons.IH [OF rest r] eq show ?case by simp
qed

lemma run_tests_requested:
  "list_ex requests ts \<Longrightarrow> backend_error w platform_name = None \<Longrightarrow>
   run_tests lc tmp ctx ts None w = (os, c', w') \<Longrightarrow>
     (\<exists>sctx. c' = Some (Inr sctx) \<and> platform_info sctx ''name'' = Some platform_name) \<and>
     length os = length ts \<and>
     platform_config w' = (platform_config w)(platform_name \<mapsto>
        [(''class'', ''jdbc''), (''driver'', ''hsqldb''),
         (''url'', ''jdbc:hsqldb:mem://'' @ platform_name)]) \<and>
     open_db_of w' = insert platform_name (open_db_of w) \<and>
     journal w' = journal w @ [Registered platform_name, Opened platform_name]"
proof (induction ts arbitrary: w os c' w')
  case Nil
  then show ?case by simp
next
  case (Cons t ts)
  show ?case
  proof (cases t)
    case (Other b)
    with Cons.prems(1) have rest: "list_ex requests ts" by simp
    obtain ok m' where b: "b (ixmp_state.more w) = (ok, m')"
      by (cases "b (ixmp_state.more w)")
    obtain os1 c1 w1 where
      r: "run_tests lc tmp ctx ts None (w\<lparr>ixmp_state.more := m'\<rparr>) = (os1, c1, w1)"
      by (cases "run_tests lc tmp ctx ts None (w\<lparr>ixmp_state.more := m'\<rparr>)")
    from Cons.prems(3) Other b r have eq: "os = outcome_of ok # os1" "c' = c1" "w' = w1"
      by simp_all
    from Cons.prems(2) have "backend_error (w\<lparr>ixmp_state.more := m'\<rparr>) platform_name = None"
      by simp
    from Cons.IH [OF rest this r] eq show ?thesis by simp
  next
    case (Requesting b)
    let ?sctx = "ctx\<lparr>cache_path := joinpath (if lc then local_data ctx else tmp) [''cache''],
          local_data := tmp,
          platform_info := (platform_info ctx)(''name'' \<mapsto> platform_name)\<rparr>"
    let ?w1 = "w\<lparr>platform_config := (platform_config w)(platform_name \<mapsto>
             [(''class'', ''jdbc''), (''driver'', ''hsqldb''),
              (''url'', ''jdbc:hsqldb:mem://'' @ platform_name)]),
        open_db_of := insert platform_name (open_db_of w),
        journal := journal w @ [Registered platform_name, Opened platform_name]\<rparr>"
    have rf: "request_fixture lc tmp ctx None w = (Inr ?sctx, ?w1)"
      by (simp add: request_fixture_def setup_ok [OF Cons.prems(2)])
    obtain ok m' where b: "b ?sctx (ixmp_state.more ?w1) = (ok, m')"
      by (cases "b ?sctx (ixmp_state.more ?w1)")
    obtain os1 c1 w1 where
      r: "run_tests lc tmp ctx ts (Some (Inr ?sctx)) (?w1\<lparr>ixmp_state.more := m'\<rparr>)
            = (os1, c1, w1)"
      by (cases "run_tests lc tmp ctx ts (Some (Inr ?sctx)) (?w1\<lparr>ixmp_state.more := m'\<rparr>)")
    have "run_tests lc tmp ctx (t # ts) None w = (outcome_of ok # os1, c1, w1)"
      unfolding Requesting run_tests.simps rf
      using b r by (simp only: prod.case sum.case Let_def)
    with Cons.prems(3) have eq: "os = outcome_of ok # os1" "c' = c1" "w' = w1"
      by simp_all
    from run_tests_cached [OF r] eq show ?thesis by simp
  qed
qed

lemma teardown_ok:
  "platform_info sctx ''name'' = Some platform_name \<Longrightarrow> platform_name \<in> open_db_of w \<Longrightarrow>
   platform_config w platform_name = Some info \<Longrightarrow>
   session_context_teardown sctx w =
     (None, w\<lparr>open_db_of := open_db_of w - {platform_name},
               journal := journal w @ [Closed platform_name, Removed platform_name],
               platform_config := (platform_config w)(platform_name := None)\<rparr>)"
  by (simp add: session_context_teardown_def close_db_def remove_platform_def Let_def)

text \<open>
  Claim C3, as the code has it. In a session in which some test requests the fixture and
  the backend does not refuse the connection: the set-up runs once, registers the entry
  under the fixed name \<^verbatim>\<open>message-ix-models\<close> and opens its connection; every test has an
  outcome, failing ones included; the tear-down then raises nothing, closes the connection
  and removes the entry. Over the whole session the journal grows by exactly one
  registration, one opening, one closing and one removal, in this order, and at the end
  the name has no entry and no open connection. In a session in which no test requests
  the fixture, in particular one without tests, the fixture does not run: the journal, the
  entries and the open connections are at the end what they were at the start.
\<close>

theorem session_fixture_lifecycle:
  "(list_ex requests tests \<and> backend_error w platform_name = None \<longrightarrow>
      (\<exists>os w'. run_session lc tmp ctx tests w = (os, None, w') \<and>
         length os = length tests \<and>
         journal w' = journal w @
           [Registered platform_name, Opened platform_name,
            Closed platform_name, Removed platform_name] \<and>
         count_list (journal w') (Registered platform_name)
           = count_list (journal w) (Registered platform_name) + 1 \<and>
         count_list (journal w') (Removed platform_name)
           = count_list (journal w) (Removed platform_name) + 1 \<and>
         platform_config w' platform_name = None \<and>
         platform_name \<notin> open_db_of w')) \<and>
   (backend_error w platform_name = None \<longrightarrow>
      (\<exists>sctx w1. session_context_setup lc tmp ctx w = (None, sctx, w1) \<and>
         platform_config w1 platform_name =
           Some [(''class'', ''jdbc''), (''driver'', ''hsqldb''),
                 (''url'', ''jdbc:hsqldb:mem://message-ix-models'')] \<and>
         platform_name \<in> open_db_of w1 \<and>
         journal w1 = journal w @ [Registered platform_name, Opened platform_name])) \<and>
   (\<not> list_ex requests tests \<longrightarrow>
      (\<exists>os w'. run_session lc tmp ctx tests w = (os, None, w') \<and>
         length os = length tests \<and> journal w' = journal w \<and>
         platform_config w' = platform_config w \<and> open_db_of w' = open_db_of w)) \<and>
   platform_name = ''message-ix-models''"
proof (intro conjI impI)
  assume a: "list_ex requests tests \<and> backend_error w platform_name = None"
  obtain os c1 w1 where r: "run_tests lc tmp ctx tests None w = (os, c1, w1)"
    by (cases "run_tests lc tmp ctx tests None w")
  from run_tests_requested [OF conjunct1 [OF a] conjunct2 [OF a] r] obtain sctx where
    c: "c1 = Some (Inr sctx)" "platform_info sctx ''name'' = Some platform_name"
    and f: "length os = length tests"
      "platform_config w1 = (platform_config w)(platform_name \<mapsto>
        [(''class'', ''jdbc''), (''driver'', ''hsqldb''),
         (''url'', ''jdbc:hsqldb:mem://'' @ platform_name)])"
      "open_db_of w1 = insert platform_name (open_db_of w)"
      "journal w1 = journal w @ [Registered platform_name, Opened platform_name]"
    by blast
  let ?w2 = "w1\<lparr>open_db_of := open_db_of w1 - {platform_name},
               journal := journal w1 @ [Closed platform_name, Removed platform_name],
               platform_config := (platform_config w1)(platform_name := None)\<rparr>"
  have t: "session_context_teardown sctx w1 = (None, ?w2)"
    by (rule teardown_ok [OF c(2)]) (simp_all add: f)
  have rs: "run_session lc tmp ctx tests w = (os, None, ?w2)"
    by (simp only: run_session_def r c(1) t prod.case option.case sum.case)
  show "\<exists>os w'. run_session lc tmp ctx tests w = (os, None, w') \<and>
         length os = length tests \<and>
         journal w' = journal w @
           [Registered platform_name, Opened platform_name,
            Closed platform_name, Removed platform_name] \<and>
         count_list (journal w') (Registered platform_name)
           = count_list (journal w) (Registered platform_name) + 1 \<and>
         count_list (journal w') (Removed platform_name)
           = count_list (journal w) (Removed platform_name) + 1 \<and>
         platform_config w' platform_name = None \<and>
         platform_name \<notin> open_db_of w'"
    apply (rule exI [of _ os], rule exI [of _ ?w2])
    using rs f by simp
next
  assume "backend_error w platform_name = None"
  then show "\<exists>sctx w1. session_context_setup lc tmp ctx w = (None, sctx, w1) \<and>
         platform_config w1 platform_name =
           Some [(''class'', ''jdbc''), (''driver'', ''hsqldb''),
                 (''url'', ''jdbc:hsqldb:mem://message-ix-models'')] \<and>
         platform_name \<in> open_db_of w1 \<and>
         journal w1 = journal w @ [Registered platform_name, Opened platform_name]"
    by (simp add: setup_ok) (simp add: platform_name_def)
next
  assume n: "\<not> list_ex requests tests"
  obtain os c1 w1 where r: "run_tests lc tmp ctx tests None w = (os, c1, w1)"
    by (cases "run_tests lc tmp ctx tests None w")
  from run_tests_unrequested [OF n r]
  have f: "c1 = None" "length os = length tests" "platform_config w1 = platform_config w"
    "open_db_of w1 = open_db_of w" "journal w1 = journal w"
    by simp_all
  have "run_session lc tmp ctx tests w = (os, None, w1)"
    by (simp only: run_session_def r f(1) prod.case option.case)
  with f show "\<exists>os w'. run_session lc tmp ctx tests w = (os, None, w') \<and>
         length os = length tests \<and> journal w' = journal w \<and>
         platform_config w' = platform_config w \<and> open_db_of w' = open_db_of w"
    by simp
next
  show "platform_name = ''message-ix-models''"
    by (simp add: platform_name_def)
qed

lemma sample_session_eval:
  "fst (run_session False [''tmp'', ''data0''] sample_context sample_tests fresh_state)
     = [Passed, Failed, Passed] \<and>
   fst (snd (run_session False [''tmp'', ''data0''] sample_context sample_tests fresh_state))
     = None \<and>
   journal (snd (snd
     (run_session False [''tmp'', ''data0''] sample_context sample_tests fresh_state)))
     = [Registered ''message-ix-models'', Opened ''message-ix-models'',
        Closed ''message-ix-models'', Removed ''message-ix-models''] \<and>
   journal (snd (snd
     (run_session False [''tmp'', ''data0''] sample_context [Other (\<lambda>m. (True, m))]
        fresh_state))) = []"
  by code_simp

theorem session_fixture_lifecycle_witness:
  "list_ex requests sample_tests \<and>
   backend_error fresh_state platform_name = None \<and>
   fst (run_session False [''tmp'', ''data0''] sample_context sample_tests fresh_state)
     = [Passed, Failed, Passed] \<and>
   fst (snd (run_session False [''tmp'', ''data0''] sample_context sample_tests fresh_state))
     = None \<and>
   journal (snd (snd
     (run_session False [''tmp'', ''data0''] sample_context sample_tests fresh_state)))
     = [Registered ''message-ix-models'', Opened ''message-ix-models'',
        Closed ''message-ix-models'', Removed ''message-ix-models''] \<and>
   \<not> list_ex requests [Other (\<lambda>m. (True, m)) :: (int, unit) test] \<and>
   journal (snd (snd
     (run_session False [''tmp'', ''data0''] sample_context [Other (\<lambda>m. (True, m))]
        fresh_state))) = []"
proof -
  have h1: "list_ex requests sample_tests \<and> backend_error fresh_state platform_name = None"
    by (simp add: sample_tests_def fresh_state_def)
  have h2: "\<not> list_ex requests [Other (\<lambda>m. (True, m)) :: (int, unit) test]"
    by simp
  note a = session_fixture_lifecycle
    [of sample_tests fresh_state False "[''tmp'', ''data0'']" sample_context,
     THEN conjunct1, rule_format, OF h1]
  note b = session_fixture_lifecycle
    [of "[Other (\<lambda>m. (True, m))]" fresh_state False "[''tmp'', ''data0'']" sample_context,
     THEN conjunct2, THEN conjunct2, THEN conjunct1, rule_format, OF h2]
  from a b h1 h2 sample_session_eval show ?thesis
    by simp
qed

text \<open>
  The claim as first stated, for every session and also one without tests, fails on two
  inputs. A session without tests registers nothing: the count of registrations stays 0.
  And when the backend refuses the connection, the single requesting test reports that
  error, the entry has been registered once and is removed zero times, so that it is
  still there at the end of the session.
\<close>

theorem session_fixture_lifecycle_counterexample:
  "count_list (journal (snd (snd
      (run_session False [''tmp'', ''data0''] sample_context
         ([] :: (int, unit) test list) fresh_state))))
      (Registered ''message-ix-models'') = 0 \<and>
   fst (run_session False [''tmp'', ''data0''] sample_context
          [Requesting (\<lambda>c m. (True, m))] refusing_state)
     = [Errored (Exn ConnectionError ''no JVM'' None)] \<and>
   count_list (journal (snd (snd
      (run_session False [''tmp'', ''data0''] sample_context
         [Requesting (\<lambda>c m. (True, m))] refusing_state))))
      (Registered ''message-ix-models'') = 1 \<and>
   count_list (journal (snd (snd
      (run_session False [''tmp'', ''data0''] sample_context
         [Requesting (\<lambda>c m. (True, m))] refusing_state))))
      (Removed ''message-ix-models'') = 0 \<and>
   platform_config (snd (snd
      (run_session False [''tmp'', ''data0''] sample_context
         [Requesting (\<lambda>c m. (True, m))] refusing_state))) ''message-ix-models''
     = Some [(''class'', ''jdbc''), (''driver'', ''hsqldb''),
             (''url'', ''jdbc:hsqldb:mem://message-ix-models'')]"
  by code_simp

section \<open>Properties of the testing utility functions\<close>

lemma clone_name_eq:
  "clone_name request =
     Inr (case request of None \<Rightarrow> ''baseline'' | Some r \<Rightarrow> node_name (request_node r))"
  by (simp add: clone_name_def request_node_name_def split: option.splits)

lemma bare_res_found:
  assumes "ctx1 = use_defaults lib context"
    and "Scenario lib (get_platform lib ctx1) (bare_name lib ctx1) ''baseline'' w = Inr base"
    and "nn = (case request of None \<Rightarrow> ''baseline'' | Some r \<Rightarrow> node_name (request_node r))"
    and "w2 = (if solved \<and> \<not> has_solution lib base w
               then solve lib base [(''lpmethod'', 4)] True w else w)"
  shows "bare_res lib request context solved w =
      Inr (fst (clone lib base nn solved w2), ctx1, snd (clone lib base nn solved w2))"
  using assms
  by (simp add: bare_res_def lookup_or_create_def clone_name_eq Let_def case_prod_beta)

lemma bare_res_created:
  assumes "ctx1 = use_defaults lib context"
    and "Scenario lib (get_platform lib ctx1) (bare_name lib ctx1) ''baseline'' w = Inl e"
    and "exn_class e = ValueError"
    and "ctx2 = ctx1\<lparr>scenario_info := scenario_info ctx1 ++
            [''model'' \<mapsto> bare_name lib ctx1, ''scenario'' \<mapsto> ''baseline'']\<rparr>"
    and "base = fst (create_res lib ctx2 w)" and "w1 = snd (create_res lib ctx2 w)"
    and "nn = (case request of None \<Rightarrow> ''baseline'' | Some r \<Rightarrow> node_name (request_node r))"
    and "w2 = (if solved \<and> \<not> has_solution lib base w1
               then solve lib base [(''lpmethod'', 4)] True w1 else w1)"
  shows "bare_res lib request context solved w =
      Inr (fst (clone lib base nn solved w2), ctx2, snd (clone lib base nn solved w2))"
  using assms
  by (simp add: bare_res_def lookup_or_create_def clone_name_eq Let_def case_prod_beta)

text \<open>
  Claim C4. \<^verbatim>\<open>bare_res(request, context, solved)\<close> looks up the scenario \<^verbatim>\<open>baseline\<close>
  under the model name computed from the context after the defaults are applied. When the
  lookup returns a scenario, that is the base; when it raises \<^verbatim>\<open>ValueError\<close>, the base is
  created from the context with model and scenario name recorded in \<^verbatim>\<open>scenario_info\<close>.
  If \<open>solved\<close> holds and the base has no solution, the base is solved with the option
  \<^verbatim>\<open>lpmethod=4\<close> and \<^verbatim>\<open>quiet=True\<close>; otherwise nothing is solved. The value returned is
  the clone of the base under the name of the request's test node, or \<^verbatim>\<open>baseline\<close>
  without a request, made with \<^verbatim>\<open>keep_solution\<close> equal to \<open>solved\<close>.
\<close>

theorem bare_res_returns_clone:
  "(let ctx1 = use_defaults lib context;
        name = bare_name lib ctx1;
        mp = get_platform lib ctx1;
        new_name = (case request of None \<Rightarrow> ''baseline'' | Some r \<Rightarrow> node_name (request_node r));
        finish = (\<lambda>base ctx' w1.
          let w2 = (if solved \<and> \<not> has_solution lib base w1
                    then solve lib base [(''lpmethod'', 4)] True w1 else w1)
          in Inr (fst (clone lib base new_name solved w2), ctx',
                  snd (clone lib base new_name solved w2)))
    in (\<forall>base. Scenario lib mp name ''baseline'' w = Inr base \<longrightarrow>
          bare_res lib request context solved w = finish base ctx1 w) \<and>
       (\<forall>e. Scenario lib mp name ''baseline'' w = Inl e \<and> exn_class e = ValueError \<longrightarrow>
          (let ctx2 = ctx1\<lparr>scenario_info :=
                  scenario_info ctx1 ++ [''model'' \<mapsto> name, ''scenario'' \<mapsto> ''baseline'']\<rparr>
           in bare_res lib request context solved w
                = finish (fst (create_res lib ctx2 w)) ctx2 (snd (create_res lib ctx2 w)))))"
  unfolding Let_def
  by (intro conjI allI impI; (elim conjE)?; (rule bare_res_found bare_res_created);
      (assumption | rule refl))

lemma toy_bare_res_eval:
  "map_sum id (\<lambda>r. (fst r, snd (snd r))) (bare_res toy_library None sample_context True [])
     = Inr ((''RES R14'', ''baseline''),
            [((''RES R14'', ''baseline''), True), ((''RES R14'', ''baseline''), True),
             ((''RES R14'', ''baseline''), False)]) \<and>
   map_sum id (\<lambda>r. (fst r, snd (snd r)))
     (bare_res toy_library (Some (Request (Node ''test_foo''))) sample_context False
        [((''RES R14'', ''baseline''), True)])
     = Inr ((''RES R14'', ''test_foo''),
            [((''RES R14'', ''test_foo''), False), ((''RES R14'', ''baseline''), True)])"
  by code_simp

theorem bare_res_returns_clone_witness:
  "Scenario toy_library (get_platform toy_library (use_defaults toy_library sample_context))
       (bare_name toy_library (use_defaults toy_library sample_context)) ''baseline'' []
     = Inl (Exn ValueError ''baseline'' None) \<and>
   exn_class (Exn ValueError ''baseline'' None) = ValueError \<and>
   map_sum id (\<lambda>r. (fst r, snd (snd r))) (bare_res toy_library None sample_context True [])
     = Inr ((''RES R14'', ''baseline''),
            [((''RES R14'', ''baseline''), True), ((''RES R14'', ''baseline''), True),
             ((''RES R14'', ''baseline''), False)]) \<and>
   Scenario toy_library (get_platform toy_library (use_defaults toy_library sample_context))
       (bare_name toy_library (use_defaults toy_library sample_context)) ''baseline''
       [((''RES R14'', ''baseline''), True)]
     = Inr (''RES R14'', ''baseline'') \<and>
   map_sum id (\<lambda>r. (fst r, snd (snd r)))
     (bare_res toy_library (Some (Request (Node ''test_foo''))) sample_context False
        [((''RES R14'', ''baseline''), True)])
     = Inr ((''RES R14'', ''test_foo''),
            [((''RES R14'', ''test_foo''), False), ((''RES R14'', ''baseline''), True)])"
proof -
  have h1: "Scenario toy_library (get_platform toy_library (use_defaults toy_library sample_context))
       (bare_name toy_library (use_defaults toy_library sample_context)) ''baseline'' []
     = Inl (Exn ValueError ''baseline'' None)"
    by (simp add: toy_library_def)
  have h2: "Scenario toy_library (get_platform toy_library (use_defaults toy_library sample_context))
       (bare_name toy_library (use_defaults toy_library sample_context)) ''baseline''
       [((''RES R14'', ''baseline''), True)]
     = Inr (''RES R14'', ''baseline'')"
    by (simp add: toy_library_def)
  note a = bare_res_returns_clone
    [of toy_library sample_context None True "[]", unfolded Let_def, THEN conjunct2,
     rule_format, OF conjI, OF h1 exn.sel(1)]
  note b = bare_res_returns_clone
    [of toy_library sample_context "Some (Request (Node ''test_foo''))" False
        "[((''RES R14'', ''baseline''), True)]", unfolded Let_def, THEN conjunct1,
     rule_format, OF h2]
  from a b h1 h2 toy_bare_res_eval show ?thesis
    by simp
qed

lemma keep_items_ok:
  "list_all (\<lambda>c. case c of Str t \<Rightarrow> True | _ \<Rightarrow> False) items \<Longrightarrow>
     keep_items items = Inr (filter cell_kept items)"
  by (induction items) (auto simp: excluded_cell_def cell_kept_def split: cell.splits)

lemma filter_isin_kept:
  "filter (\<lambda>r. cell_of r col \<in> (\<lambda>r. cell_of r col) ` set rs \<and> P (cell_of r col)) rs
     = filter (\<lambda>r. P (cell_of r col)) rs"
  by (rule filter_cong) auto

lemma clean_sheet_ok:
  assumes "sheet_ok pars idx sheet df"
  shows "clean_sheet pars idx sheet df = Inr (df\<lparr>rows := kept_rows pars idx sheet df\<rparr>)"
proof (cases "sheet = ''ix_type_mapping''")
  case True
  with assms have col: "''item'' \<in> set (columns df)"
    and strs: "list_all (\<lambda>c. case c of Str t \<Rightarrow> True | _ \<Rightarrow> False)
                 (map (\<lambda>r. cell_of r ''item'') (rows df))"
    by (simp_all add: sheet_ok_def list_all_iff)
  show ?thesis
    using True col keep_items_ok [OF strs]
    by (simp add: clean_sheet_def tolist_def select_isin_def kept_rows_def filter_isin_kept)
next
  case False
  with assms show ?thesis
    by (auto simp: clean_sheet_def sheet_ok_def kept_rows_def select_isin_def
        split: list.splits)
qed

lemma write_sheets_ok:
  assumes "\<forall>s\<in>set sheets. \<exists>df. map_of reader s = Some df \<and> sheet_ok pars idx s df"
  shows "\<exists>out. write_sheets pars idx reader sheets acc = Inr (acc @ out) \<and>
           map fst out = sheets \<and>
           (\<forall>(s, df') \<in> set out. \<exists>df. map_of reader s = Some df \<and>
               df' = df\<lparr>rows := kept_rows pars idx s df\<rparr>)"
  using assms
proof (induction sheets arbitrary: acc)
  case Nil
  then show ?case by simp
next
  case (Cons s sheets)
  from Cons.prems obtain df where df: "map_of reader s = Some df" "sheet_ok pars idx s df"
    by auto
  let ?df' = "df\<lparr>rows := kept_rows pars idx s df\<rparr>"
  from Cons.prems
  have "\<forall>s\<in>set sheets. \<exists>df. map_of reader s = Some df \<and> sheet_ok pars idx s df"
    by simp
  from Cons.IH [OF this, of "acc @ [(s, ?df')]"]
  obtain out where out:
    "write_sheets pars idx reader sheets (acc @ [(s, ?df')]) = Inr ((acc @ [(s, ?df')]) @ out)"
    "map fst out = sheets"
    "\<forall>(s, df') \<in> set out. \<exists>df. map_of reader s = Some df \<and>
        df' = df\<lparr>rows := kept_rows pars idx s df\<rparr>"
    by blast
  have "write_sheets pars idx reader (s # sheets) acc = Inr (acc @ ((s, ?df') # out))"
    using df out(1) by (simp add: parse_def clean_sheet_ok)
  moreover have "map fst ((s, ?df') # out) = s # sheets"
    using out(2) by simp
  moreover have "\<forall>(s, df') \<in> set ((s, ?df') # out). \<exists>df. map_of reader s = Some df \<and>
               df' = df\<lparr>rows := kept_rows pars idx s df\<rparr>"
    using df(1) out(3) by simp
  ultimately show ?case
    by (intro exI [of _ "(s, ?df') # out"] conjI)
qed

text \<open>
  Claim C9. \<^verbatim>\<open>export_test_data\<close> loads the scenario \<^verbatim>\<open>ENGAGE_SSP2_v4.1.7\<close> /
  \<^verbatim>\<open>baseline\<close> and exports it, filtered by the technology \<^verbatim>\<open>coal_ppl\<close> and the two
  nodes, to the file \<^verbatim>\<open>ENGAGE_SSP2_v4.1.7_baseline_coal_ppl.xlsx\<close>. Provided the scenario
  exists and the exported sheets are well formed, the call raises nothing and leaves at the
  same file name a workbook that holds, in their order, exactly the exported sheets whose
  name contains no entry of the exclusion list, each with its columns and with the rows to
  keep: on \<^verbatim>\<open>ix_type_mapping\<close> the rows whose item contains no entry of the exclusion list,
  on the sheet of a parameter the rows whose first node index lies in the two nodes, on
  any other sheet all rows. No other file changes.
\<close>

theorem export_test_data_cleans:
  assumes "Scenario lib (get_platform lib context) src_model src_scenario w = Inr scen"
    and "export_well_formed (par_list lib scen w) (idx_names lib scen w)
           (to_excel lib scen export_filters w)"
  shows "\<exists>out. export_test_data lib context w files = (None, files(dest_file \<mapsto> out)) \<and>
           map fst out
             = filter (\<lambda>s. \<not> excluded s) (map fst (to_excel lib scen export_filters w)) \<and>
           (\<forall>(s, df') \<in> set out. \<exists>df.
               map_of (to_excel lib scen export_filters w) s = Some df \<and>
               df' = df\<lparr>rows := kept_rows (par_list lib scen w) (idx_names lib scen w) s df\<rparr>) \<and>
           src_model = ''ENGAGE_SSP2_v4.1.7'' \<and> src_scenario = ''baseline'' \<and>
           dest_file = ''ENGAGE_SSP2_v4.1.7_baseline_coal_ppl.xlsx'' \<and>
           export_filters =
             [(''technology'', One ''coal_ppl''), (''node'', Many [''R11_AFR'', ''R11_CPA'']),
              (''node_dest'', Many [''R11_AFR'', ''R11_CPA'']),
              (''node_loc'', Many [''R11_AFR'', ''R11_CPA'']),
              (''node_origin'', Many [''R11_AFR'', ''R11_CPA''])]"
proof -
  let ?reader = "to_excel lib scen export_filters w"
  let ?pars = "par_list lib scen w"
  let ?idx = "idx_names lib scen w"
  let ?sheets = "filter (\<lambda>s. \<not> excluded s) (map fst ?reader)"
  have "\<forall>s\<in>set ?sheets. \<exists>df. map_of ?reader s = Some df \<and> sheet_ok ?pars ?idx s df"
    using assms(2)
    by (auto simp: export_well_formed_def list_all_iff split: option.splits)
  from write_sheets_ok [OF this, of "[]"]
  obtain out where out: "write_sheets ?pars ?idx ?reader ?sheets [] = Inr out"
    "map fst out = ?sheets"
    "\<forall>(s, df') \<in> set out. \<exists>df. map_of ?reader s = Some df \<and>
               df' = df\<lparr>rows := kept_rows ?pars ?idx s df\<rparr>"
    by auto
  have run: "export_test_data lib context w files = (None, files(dest_file \<mapsto> out))"
    using assms(1) out(1) by (simp add: export_test_data_def Let_def)
  have names: "src_model = ''ENGAGE_SSP2_v4.1.7''" "src_scenario = ''baseline''"
    "dest_file = ''ENGAGE_SSP2_v4.1.7_baseline_coal_ppl.xlsx''"
    by (simp_all add: src_model_def src_scenario_def dest_file_def technology_def)
  have filters: "export_filters =
             [(''technology'', One ''coal_ppl''), (''node'', Many [''R11_AFR'', ''R11_CPA'']),
              (''node_dest'', Many [''R11_AFR'', ''R11_CPA'']),
              (''node_loc'', Many [''R11_AFR'', ''R11_CPA'']),
              (''node_origin'', Many [''R11_AFR'', ''R11_CPA''])]"
    by (simp add: export_filters_def technology_def nodes_def)
  from run out(2,3) names filters show ?thesis
    by (intro exI [of _ out] conjI)
qed

lemma toy_export_eval:
  "fst (export_test_data toy_library sample_context [((src_model, src_scenario), True)] Map.empty)
     = None \<and>
   snd (export_test_data toy_library sample_context [((src_model, src_scenario), True)] Map.empty)
     ''ENGAGE_SSP2_v4.1.7_baseline_coal_ppl.xlsx'' =
     Some [(''ix_type_mapping'',
            \<lparr>columns = [''item'', ''ix_type''],
             rows = [[(''item'', Str ''output''), (''ix_type'', Str ''par'')],
                     [(''item'', Str ''technology''), (''ix_type'', Str ''set'')]]\<rparr>),
           (''output'',
            \<lparr>columns = [''node_loc'', ''technology'', ''node_dest'', ''value''],
             rows = [[(''node_loc'', Str ''R11_AFR''), (''technology'', Str ''coal_ppl''),
                      (''node_dest'', Str ''R11_WEU''), (''value'', Num 1)]]\<rparr>),
           (''technology'',
            \<lparr>columns = [''technology''],
             rows = [[(''technology'', Str ''coal_ppl'')],
                     [(''technology'', Str ''gas_ppl'')]]\<rparr>)]"
  by code_simp

theorem export_test_data_cleans_witness:
  "Scenario toy_library (get_platform toy_library sample_context) src_model src_scenario
       [((src_model, src_scenario), True)] = Inr (src_model, src_scenario) \<and>
   export_well_formed
       (par_list toy_library (src_model, src_scenario) [((src_model, src_scenario), True)])
       (idx_names toy_library (src_model, src_scenario) [((src_model, src_scenario), True)])
       (to_excel toy_library (src_model, src_scenario) export_filters
          [((src_model, src_scenario), True)]) \<and>
   fst (export_test_data toy_library sample_context [((src_model, src_scenario), True)] Map.empty)
     = None \<and>
   snd (export_test_data toy_library sample_context [((src_model, src_scenario), True)] Map.empty)
     ''ENGAGE_SSP2_v4.1.7_baseline_coal_ppl.xlsx'' =
     Some [(''ix_type_mapping'',
            \<lparr>columns = [''item'', ''ix_type''],
             rows = [[(''item'', Str ''output''), (''ix_type'', Str ''par'')],
                     [(''item'', Str ''technology''), (''ix_type'', Str ''set'')]]\<rparr>),
           (''output'',
            \<lparr>columns = [''node_loc'', ''technology'', ''node_dest'', ''value''],
             rows = [[(''node_loc'', Str ''R11_AFR''), (''technology'', Str ''coal_ppl''),
                      (''node_dest'', Str ''R11_WEU''), (''value'', Num 1)]]\<rparr>),
           (''technology'',
            \<lparr>columns = [''technology''],
             rows = [[(''technology'', Str ''coal_ppl'')],
                     [(''technology'', Str ''gas_ppl'')]]\<rparr>)]"
proof -
  have h1: "Scenario toy_library (get_platform toy_library sample_context) src_model src_scenario
       [((src_model, src_scenario), True)] = Inr (src_model, src_scenario)"
    by (simp add: toy_library_def)
  have h2: "export_well_formed
       (par_list toy_library (src_model, src_scenario) [((src_model, src_scenario), True)])
       (idx_names toy_library (src_model, src_scenario) [((src_model, src_scenario), True)])
       (to_excel toy_library (src_model, src_scenario) export_filters
          [((src_model, src_scenario), True)])"
    by code_simp
  from export_test_data_cleans [OF h1 h2, of Map.empty] h1 h2 toy_export_eval show ?thesis
    by simp
qed

end
